theory Spec2Isabelle
  imports Complex_Main "HOL-Library.Sublist"
begin

section \<open>Radiation-sensing and localization core of radiation\_bot.py\<close>

text \<open>
  Python floats are idealised as \<^typ>\<open>real\<close> (no rounding); Python's unbounded integers
  are \<^typ>\<open>int\<close>. Wall-clock readings (\<^verbatim>\<open>time.time()\<close>) are passed in as arguments.
\<close>

subsection \<open>Python helpers\<close>

text \<open>\<^verbatim>\<open>needle in haystack\<close> on Python strings: contiguous substring test.\<close>

fun str_in :: "string \<Rightarrow> string \<Rightarrow> bool" where
  "str_in needle [] = (needle = [])"
| "str_in needle (c # cs) = (prefix needle (c # cs) \<or> str_in needle cs)"

text \<open>\<^verbatim>\<open>math.radians\<close>.\<close>

definition radians :: "real \<Rightarrow> real" where
  "radians d = d * pi / 180"

subsection \<open>PositionTracker\<close>

text \<open>
  The fields \<^verbatim>\<open>x\<close> and \<^verbatim>\<open>y\<close> are named \<open>pos_x\<close> and \<open>pos_y\<close>.
  \<^verbatim>\<open>heading\<close> starts as the integer 0 and is only ever changed by integer
  multiples of 45, so it is an \<^typ>\<open>int\<close>; \<^verbatim>\<open>steps\<close> is an integer at every call site.
\<close>

record PositionTracker =
  pos_x :: real
  pos_y :: real
  heading :: int
  step_size :: int

definition PositionTracker_init :: PositionTracker where
  "PositionTracker_init = \<lparr>pos_x = 0, pos_y = 0, heading = 0, step_size = 10\<rparr>"

definition update_position :: "string \<Rightarrow> int \<Rightarrow> PositionTracker \<Rightarrow> PositionTracker" where
  "update_position action steps t =
     (let distance = steps * step_size t;
          t1 =
            (if str_in ''forward'' action then
               t\<lparr>pos_x := pos_x t + real_of_int distance * cos (radians (real_of_int (heading t))),
                 pos_y := pos_y t + real_of_int distance * sin (radians (real_of_int (heading t)))\<rparr>
             else if str_in ''backward'' action then
               t\<lparr>pos_x := pos_x t - real_of_int distance * cos (radians (real_of_int (heading t))),
                 pos_y := pos_y t - real_of_int distance * sin (radians (real_of_int (heading t)))\<rparr>
             else if str_in ''turn left'' action then
               t\<lparr>heading := heading t + 45 * steps\<rparr>
             else if str_in ''turn right'' action then
               t\<lparr>heading := heading t - 45 * steps\<rparr>
             else t)
      in t1\<lparr>heading := heading t1 mod 360\<rparr>)"

definition get_position :: "PositionTracker \<Rightarrow> real \<times> real \<times> int" where
  "get_position t = (pos_x t, pos_y t, heading t)"

subsection \<open>RadiationSensor\<close>

text \<open>
  The fields \<^verbatim>\<open>pin\<close> and \<^verbatim>\<open>sensor_type\<close> are configuration for the GPIO library only and
  are left out. \<^verbatim>\<open>pulse_count\<close> is a Python integer; timestamps and rates are floats.
\<close>

record RadiationSensor =
  pulse_count :: int
  start_time :: real
  reading_interval :: real
  last_reading :: real
  pulse_buffer :: "real list"

text \<open>\<^verbatim>\<open>__init__\<close>, with the clock reading \<open>now\<close> taken at construction.\<close>

definition RadiationSensor_init :: "real \<Rightarrow> RadiationSensor" where
  "RadiationSensor_init now =
     \<lparr>pulse_count = 0, start_time = now, reading_interval = 5, last_reading = 0,
      pulse_buffer = []\<rparr>"

text \<open>\<^verbatim>\<open>_pulse_callback\<close>; \<open>current_time\<close> is the value of \<^verbatim>\<open>time.time()\<close> in the callback.\<close>

definition pulse_callback :: "real \<Rightarrow> RadiationSensor \<Rightarrow> RadiationSensor" where
  "pulse_callback current_time s =
     (let s1 = s\<lparr>pulse_count := pulse_count s + 1\<rparr>;
          s2 = s1\<lparr>pulse_buffer := pulse_buffer s1 @ [current_time]\<rparr>;
          cutoff_time = current_time - 60
      in s2\<lparr>pulse_buffer := filter (\<lambda>t. t > cutoff_time) (pulse_buffer s2)\<rparr>)"

text \<open>\<^verbatim>\<open>get_reading\<close>: the returned value and the sensor afterwards.\<close>

definition get_reading :: "real \<Rightarrow> RadiationSensor \<Rightarrow> real \<times> RadiationSensor" where
  "get_reading current_time s =
     (let elapsed = current_time - start_time s
      in if elapsed \<ge> reading_interval s then
           (let recent_pulses = length (pulse_buffer s);
                cpm = real recent_pulses;
                s1 = (if elapsed > 0 then
                        (let short_term_cpm = (real_of_int (pulse_count s) / elapsed) * 60
                         in s\<lparr>last_reading := (cpm + short_term_cpm) / 2\<rparr>)
                      else s\<lparr>last_reading := cpm\<rparr>);
                s2 = s1\<lparr>pulse_count := 0\<rparr>;
                s3 = s2\<lparr>start_time := current_time\<rparr>
            in (last_reading s3, s3))
         else (last_reading s, s))"

definition get_instant_cpm :: "RadiationSensor \<Rightarrow> nat" where
  "get_instant_cpm s = length (pulse_buffer s)"

text \<open>\<^verbatim>\<open>convert_to_microsieverts\<close>; the literal 0.036 is written 36 / 1000.\<close>

definition convert_to_microsieverts :: "real \<Rightarrow> real" where
  "convert_to_microsieverts cpm =
     (if cpm \<le> 0 then 0
      else (let cps = cpm / 60;
                micro_r_per_sec = cps / 65;
                micro_sv_per_hour = micro_r_per_sec * (36 / 1000) * 3600
            in micro_sv_per_hour))"

text \<open>
  What can happen to a sensor object: the GPIO edge callback fires at some clock time,
  \<^verbatim>\<open>get_reading\<close> is polled at some clock time, or \<^verbatim>\<open>collect_radiation_sample\<close> empties the
  pulse buffer (\<^verbatim>\<open>self.sensor.pulse_buffer = []\<close>). A history is a list of such events,
  oldest first.
\<close>

datatype sensor_event = Pulse real | Read real | ClearBuffer

fun sensor_step :: "RadiationSensor \<Rightarrow> sensor_event \<Rightarrow> RadiationSensor" where
  "sensor_step s (Pulse t) = pulse_callback t s"
| "sensor_step s (Read t) = snd (get_reading t s)"
| "sensor_step s ClearBuffer = s\<lparr>pulse_buffer := []\<rparr>"

definition sensor_run :: "sensor_event list \<Rightarrow> RadiationSensor \<Rightarrow> RadiationSensor" where
  "sensor_run evs s = foldl sensor_step s evs"

text \<open>The \<^verbatim>\<open>Read\<close> events of a history all fall before \<open>deadline\<close>.\<close>

fun reads_before :: "real \<Rightarrow> sensor_event list \<Rightarrow> bool" where
  "reads_before deadline [] = True"
| "reads_before deadline (Read t # evs) = (t < deadline \<and> reads_before deadline evs)"
| "reads_before deadline (_ # evs) = reads_before deadline evs"

text \<open>
  The invariant of the sensor used below: the pulse counter and the stored estimate are
  never negative.
\<close>

definition sensor_inv :: "RadiationSensor \<Rightarrow> bool" where
  "sensor_inv s = (0 \<le> pulse_count s \<and> 0 \<le> last_reading s)"

subsection \<open>RadiationBot\<close>

text \<open>
  One entry of \<^verbatim>\<open>radiation_data\<close>. The key \<^verbatim>\<open>'heading'\<close> is named \<open>dp_heading\<close>; the
  \<^verbatim>\<open>'timestamp'\<close> string (wall clock) is left out.
\<close>

record data_point =
  position :: "real \<times> real"
  dp_heading :: int
  radiation_cpm :: real
  radiation_microsieverts :: real
  readings :: "real list"
  microsievert_readings :: "real list"

text \<open>
  The robot's own state. The sensor object is modelled above; the sampling loop below
  receives what it polled from the sensor as an argument. \<^verbatim>\<open>heatmap_data\<close> is a
  \<^verbatim>\<open>defaultdict(list)\<close>: a total function whose default is the empty list.
\<close>

record RadiationBot =
  tracker :: PositionTracker
  radiation_data :: "data_point list"
  heatmap_data :: "int \<times> int \<Rightarrow> real list"
  is_exploring :: bool
  max_radiation :: real
  max_radiation_pos :: "real \<times> real"

definition RadiationBot_init :: RadiationBot where
  "RadiationBot_init =
     \<lparr>tracker = PositionTracker_init, radiation_data = [], heatmap_data = (\<lambda>_. []),
      is_exploring = False, max_radiation = 0, max_radiation_pos = (0, 0)\<rparr>"

text \<open>Python's \<^verbatim>\<open>round\<close> to an integer: ties go to the even neighbour.\<close>

definition py_round :: "real \<Rightarrow> int" where
  "py_round r =
     (let f = \<lfloor>r\<rfloor>; d = r - real_of_int f
      in if d < 1 / 2 then f else if 1 / 2 < d then f + 1
         else if even f then f else f + 1)"

text \<open>\<^verbatim>\<open>sum(xs) / len(xs) if xs else 0\<close>.\<close>

definition mean :: "real list \<Rightarrow> real" where
  "mean xs = (if xs \<noteq> [] then sum_list xs / real (length xs) else 0)"

text \<open>
  \<^verbatim>\<open>collect_radiation_sample\<close>. The timed polling loop reads the wall clock and the
  hardware (or the random mock field); its outcome, the list of
  \<^verbatim>\<open>(reading, microsieverts)\<close> pairs it appended, is the argument \<open>polls\<close>. Everything after
  the loop is as in the source. Returns \<^verbatim>\<open>avg_reading\<close> and the robot afterwards.
\<close>

definition collect_radiation_sample ::
    "(real \<times> real) list \<Rightarrow> RadiationBot \<Rightarrow> real \<times> RadiationBot" where
  "collect_radiation_sample polls rb =
     (let readings_l = map fst polls;
          microsievert_readings_l = map snd polls;
          avg_reading = mean readings_l;
          avg_microsieverts = mean microsievert_readings_l
      in case get_position (tracker rb) of (x, y, hdg) \<Rightarrow>
        (let dp = \<lparr>position = (x, y), dp_heading = hdg, radiation_cpm = avg_reading,
                   radiation_microsieverts = avg_microsieverts, readings = readings_l,
                   microsievert_readings = microsievert_readings_l\<rparr>;
             b1 = rb\<lparr>radiation_data := radiation_data rb @ [dp]\<rparr>;
             key = (py_round (x / 10) * 10, py_round (y / 10) * 10);
             b2 = b1\<lparr>heatmap_data := (heatmap_data b1)(key := heatmap_data b1 key @ [avg_reading])\<rparr>;
             b3 = (if avg_reading > max_radiation b2
                   then b2\<lparr>max_radiation := avg_reading, max_radiation_pos := (x, y)\<rparr>
                   else b2)
         in (avg_reading, b3)))"

text \<open>
  \<^verbatim>\<open>move_and_track\<close>: the actuator call \<^verbatim>\<open>do_action\<close> moves the hardware, the tracker is
  updated after it.
\<close>

definition move_and_track :: "string \<Rightarrow> int \<Rightarrow> RadiationBot \<Rightarrow> RadiationBot" where
  "move_and_track action steps rb = rb\<lparr>tracker := update_position action steps (tracker rb)\<rparr>"

text \<open>
  The environment of a run: \<open>env k\<close> is what the polling loop yields in the call of
  \<^verbatim>\<open>collect_radiation_sample\<close> made when \<open>k\<close> samples are already stored.
\<close>

type_synonym environment = "nat \<Rightarrow> (real \<times> real) list"

definition sample_now :: "environment \<Rightarrow> RadiationBot \<Rightarrow> real \<times> RadiationBot" where
  "sample_now env rb = collect_radiation_sample (env (length (radiation_data rb))) rb"

text \<open>\<^verbatim>\<open>range(n)\<close>.\<close>

definition py_range :: "int \<Rightarrow> int list" where
  "py_range n = [0..n - 1]"

text \<open>\<^verbatim>\<open>explore_grid\<close>: the body of the inner loop after the cancellation check.\<close>

definition explore_cell ::
    "environment \<Rightarrow> int \<Rightarrow> int \<Rightarrow> int \<Rightarrow> int \<Rightarrow> RadiationBot \<Rightarrow> RadiationBot" where
  "explore_cell env grid_size step_distance row col rb =
     (case sample_now env rb of (radiation, b1) \<Rightarrow>
        if col < grid_size - 1 then move_and_track ''forward'' step_distance b1
        else if row < grid_size - 1 then
          (if row mod 2 = 0 then
             move_and_track ''turn right'' 1
               (move_and_track ''forward'' step_distance (move_and_track ''turn right'' 1 b1))
           else
             move_and_track ''turn left'' 1
               (move_and_track ''forward'' step_distance (move_and_track ''turn left'' 1 b1)))
        else b1)"

text \<open>The inner loop over the columns; \<^verbatim>\<open>break\<close> leaves it when the flag is down.\<close>

fun explore_cols ::
    "environment \<Rightarrow> int \<Rightarrow> int \<Rightarrow> int \<Rightarrow> int list \<Rightarrow> RadiationBot \<Rightarrow> RadiationBot" where
  "explore_cols env grid_size step_distance row [] rb = rb"
| "explore_cols env grid_size step_distance row (col # cols) rb =
     (if \<not> is_exploring rb then rb
      else explore_cols env grid_size step_distance row cols
             (explore_cell env grid_size step_distance row col rb))"

fun explore_rows ::
    "environment \<Rightarrow> int \<Rightarrow> int \<Rightarrow> int list \<Rightarrow> RadiationBot \<Rightarrow> RadiationBot" where
  "explore_rows env grid_size step_distance [] rb = rb"
| "explore_rows env grid_size step_distance (row # rows) rb =
     explore_rows env grid_size step_distance rows
       (explore_cols env grid_size step_distance row (py_range grid_size) rb)"

definition explore_grid ::
    "environment \<Rightarrow> int \<Rightarrow> int \<Rightarrow> RadiationBot \<Rightarrow> data_point list \<times> RadiationBot" where
  "explore_grid env grid_size step_distance rb =
     (let b0 = rb\<lparr>is_exploring := True\<rparr>;
          b1 = explore_rows env grid_size step_distance (py_range grid_size) b0;
          b2 = b1\<lparr>is_exploring := False\<rparr>
      in (radiation_data b2, b2))"

text \<open>
  \<^verbatim>\<open>find_radiation_source\<close>: the \<^verbatim>\<open>for direction in directions\<close> loop, on the triple
  \<^verbatim>\<open>(best_direction, best_radiation, self)\<close>.
\<close>

definition directions :: "string list" where
  "directions = [''forward'', ''turn right'', ''turn right'', ''turn right'']"

fun probe_directions ::
    "environment \<Rightarrow> string list \<Rightarrow> string option \<times> real \<times> RadiationBot \<Rightarrow>
       string option \<times> real \<times> RadiationBot" where
  "probe_directions env [] st = st"
| "probe_directions env (direction # ds) (best_direction, best_radiation, rb) =
     (if str_in ''turn'' direction then
        probe_directions env ds (best_direction, best_radiation, move_and_track direction 1 rb)
      else
        (let b1 = move_and_track ''forward'' 1 rb
         in case sample_now env b1 of (test_radiation, b2) \<Rightarrow>
           (let best = (if test_radiation > best_radiation
                        then (Some ''forward'', test_radiation)
                        else (best_direction, best_radiation));
                b3 = move_and_track ''backward'' 1 b2;
                b4 = move_and_track ''turn right'' 1 b3
            in probe_directions env ds (fst best, snd best, b4))))"

text \<open>The \<^verbatim>\<open>while steps_taken < max_steps\<close> loop; returns \<^verbatim>\<open>current_radiation\<close> and the robot.\<close>

function seek_loop ::
    "environment \<Rightarrow> int \<Rightarrow> int \<Rightarrow> real \<Rightarrow> RadiationBot \<Rightarrow> real \<times> RadiationBot" where
  "seek_loop env max_steps steps_taken current_radiation rb =
     (if steps_taken < max_steps then
        (case probe_directions env directions (None, current_radiation, rb) of
           (best_direction, best_radiation, b1) \<Rightarrow>
             if best_direction \<noteq> None then
               seek_loop env max_steps (steps_taken + 1) best_radiation
                 (move_and_track ''forward'' 2 b1)
             else (current_radiation, b1))
      else (current_radiation, rb))"
  by pat_completeness auto
termination
  by (relation "measure (\<lambda>(env, max_steps, steps_taken, cr, rb). nat (max_steps - steps_taken))")
     auto

definition find_radiation_source ::
    "environment \<Rightarrow> int \<Rightarrow> RadiationBot \<Rightarrow> real \<times> RadiationBot" where
  "find_radiation_source env max_steps rb =
     (case sample_now env rb of (current_radiation, b0) \<Rightarrow>
        seek_loop env max_steps 0 current_radiation b0)"

declare seek_loop.simps [simp del]

section \<open>Properties\<close>

subsection \<open>Action strings\<close>

lemma str_in_forward [simp]:
  "str_in ''forward'' ''forward''" "\<not> str_in ''forward'' ''backward''"
  "\<not> str_in ''forward'' ''turn left''" "\<not> str_in ''forward'' ''turn right''"
  by simp_all

lemma str_in_backward [simp]:
  "str_in ''backward'' ''backward''"
  "\<not> str_in ''backward'' ''turn left''" "\<not> str_in ''backward'' ''turn right''"
  by simp_all

lemma str_in_turn_left [simp]:
  "str_in ''turn left'' ''turn left''" "\<not> str_in ''turn left'' ''turn right''"
  by simp_all

lemma str_in_turn_right [simp]:
  "str_in ''turn right'' ''turn right''"
  by simp

lemma update_forward:
  "update_position ''forward'' n t =
     t\<lparr>pos_x := pos_x t + real_of_int (n * step_size t) * cos (radians (real_of_int (heading t))),
       pos_y := pos_y t + real_of_int (n * step_size t) * sin (radians (real_of_int (heading t))),
       heading := heading t mod 360\<rparr>"
  unfolding update_position_def Let_def by (simp only: str_in_forward if_True) simp

lemma update_backward:
  "update_position ''backward'' n t =
     t\<lparr>pos_x := pos_x t - real_of_int (n * step_size t) * cos (radians (real_of_int (heading t))),
       pos_y := pos_y t - real_of_int (n * step_size t) * sin (radians (real_of_int (heading t))),
       heading := heading t mod 360\<rparr>"
  unfolding update_position_def Let_def
  by (simp only: str_in_forward str_in_backward if_True if_False) simp

lemma update_turn_left:
  "update_position ''turn left'' n t = t\<lparr>heading := (heading t + 45 * n) mod 360\<rparr>"
  unfolding update_position_def Let_def
  by (simp only: str_in_forward str_in_backward str_in_turn_left if_True if_False) simp

lemma update_turn_right:
  "update_position ''turn right'' n t = t\<lparr>heading := (heading t - 45 * n) mod 360\<rparr>"
  unfolding update_position_def Let_def
  by (simp only: str_in_forward str_in_backward str_in_turn_left str_in_turn_right
        if_True if_False) simp

lemma heading_update_position:
  "heading (update_position action steps t) =
     (if str_in ''forward'' action then heading t
      else if str_in ''backward'' action then heading t
      else if str_in ''turn left'' action then heading t + 45 * steps
      else if str_in ''turn right'' action then heading t - 45 * steps
      else heading t) mod 360"
  by (simp add: update_position_def Let_def)

lemma cos_radians_mod: "cos (radians (real_of_int (h mod 360))) = cos (radians (real_of_int h))"
proof -
  have "real_of_int h = real_of_int (h mod 360) + 360 * real_of_int (h div 360)"
    by (metis add.commute of_int_add of_int_mult of_int_numeral mult_div_mod_eq)
  then have "radians (real_of_int h)
      = radians (real_of_int (h mod 360)) + 2 * pi * real_of_int (h div 360)"
    by (simp add: radians_def field_simps)
  then show ?thesis
    by (metis cos_add cos_int_2pin sin_int_2pin mult.commute mult_zero_right diff_zero
          mult.right_neutral)
qed

text \<open>
  C9. After every call of \<open>update_position\<close>, from every tracker state, with every action
  string and every integer step count (so in particular every command of the closed
  command set and every non-negative step count), the heading lies in [0, 360).
\<close>

theorem heading_normalized:
  "0 \<le> heading (update_position action steps t) \<and> heading (update_position action steps t) < 360"
  by (simp add: heading_update_position)

subsection \<open>Tracker round trips\<close>

lemma sin_radians_mod: "sin (radians (real_of_int (h mod 360))) = sin (radians (real_of_int h))"
proof -
  have "real_of_int h = real_of_int (h mod 360) + 360 * real_of_int (h div 360)"
    by (metis add.commute of_int_add of_int_mult of_int_numeral mult_div_mod_eq)
  then have "radians (real_of_int h)
      = radians (real_of_int (h mod 360)) + 2 * pi * real_of_int (h div 360)"
    by (simp add: radians_def field_simps)
  then show ?thesis
    by (metis sin_add cos_int_2pin sin_int_2pin mult.commute mult_zero_right add.right_neutral
          mult.right_neutral)
qed

lemma backward_forward_pos:
  "pos_x (update_position ''backward'' n (update_position ''forward'' n t)) = pos_x t"
  "pos_y (update_position ''backward'' n (update_position ''forward'' n t)) = pos_y t"
  "heading (update_position ''backward'' n (update_position ''forward'' n t)) = heading t mod 360"
  by (simp_all add: update_forward update_backward cos_radians_mod sin_radians_mod)

text \<open>
  C6. Round trips of the tracker, for every tracker state \<open>t\<close> and every integer step
  count \<open>n\<close>: \<^verbatim>\<open>'turn left'\<close> with 8 steps leaves the heading equal to the original one
  modulo 360; \<^verbatim>\<open>'forward'\<close> with \<open>n\<close> steps followed by \<^verbatim>\<open>'backward'\<close> with \<open>n\<close> steps
  returns \<open>(x, y)\<close> exactly (in real arithmetic) to the original position; the heading is
  the original one modulo 360 throughout, so unchanged when it was in [0, 360).
\<close>

theorem pose_round_trips:
  "heading (update_position ''turn left'' 8 t) = heading t mod 360
   \<and> pos_x (update_position ''backward'' n (update_position ''forward'' n t)) = pos_x t
   \<and> pos_y (update_position ''backward'' n (update_position ''forward'' n t)) = pos_y t
   \<and> heading (update_position ''forward'' n t) = heading t mod 360
   \<and> heading (update_position ''backward'' n (update_position ''forward'' n t)) = heading t mod 360
   \<and> (0 \<le> heading t \<and> heading t < 360 \<longrightarrow>
        heading (update_position ''turn left'' 8 t) = heading t
      \<and> heading (update_position ''forward'' n t) = heading t
      \<and> heading (update_position ''backward'' n (update_position ''forward'' n t)) = heading t)"
proof -
  have tl: "heading (update_position ''turn left'' 8 t) = heading t mod 360"
    by (simp add: update_turn_left)
  have fw: "heading (update_position ''forward'' n t) = heading t mod 360"
    by (simp add: update_forward)
  have norm: "0 \<le> heading t \<and> heading t < 360 \<longrightarrow> heading t mod 360 = heading t"
    by simp
  from tl fw norm backward_forward_pos [of n t] show ?thesis
    by presburger
qed

lemma cos_sin_0 [simp]: "cos (radians 0) = 1" "sin (radians 0) = 0"
  by (simp_all add: radians_def)

lemma cos_sin_90 [simp]: "cos (radians 90) = 0" "sin (radians 90) = 1"
  by (simp_all add: radians_def)

lemma cos_sin_270 [simp]: "cos (radians 270) = 0" "sin (radians 270) = - 1"
proof -
  have e: "radians 270 = 3 / 2 * pi" by (simp add: radians_def)
  show "cos (radians 270) = 0" "sin (radians 270) = - 1"
    by (simp_all only: e cos_3over2_pi sin_3over2_pi)
qed

lemma cos_sin_315 [simp]: "cos (radians 315) = sqrt 2 / 2" "sin (radians 315) = - (sqrt 2 / 2)"
proof -
  have e: "radians 315 = 2 * pi - pi / 4" by (simp add: radians_def)
  show "cos (radians 315) = sqrt 2 / 2" "sin (radians 315) = - (sqrt 2 / 2)"
    by (simp_all only: e cos_2pi_minus sin_2pi_minus cos_45 sin_45)
qed

text \<open>
  The round trips at the pose (3, 4, 90) with 2 steps.
\<close>

theorem pose_round_trips_witness:
  "heading (update_position ''turn left'' 8 \<lparr>pos_x = 3, pos_y = 4, heading = 90, step_size = 10\<rparr>) = 90
   \<and> get_position (update_position ''forward'' 2
        \<lparr>pos_x = 3, pos_y = 4, heading = 90, step_size = 10\<rparr>) = (3, 24, 90)
   \<and> get_position (update_position ''backward'' 2 (update_position ''forward'' 2
        \<lparr>pos_x = 3, pos_y = 4, heading = 90, step_size = 10\<rparr>)) = (3, 4, 90)"
  using pose_round_trips [of "\<lparr>pos_x = 3, pos_y = 4, heading = 90, step_size = 10\<rparr>" 2]
  by (simp add: get_position_def update_forward)

subsection \<open>Sensor\<close>

lemma pulse_callback_fields:
  "pulse_count (pulse_callback t s) = pulse_count s + 1"
  "pulse_buffer (pulse_callback t s) = filter (\<lambda>u. u > t - 60) (pulse_buffer s) @ [t]"
  "start_time (pulse_callback t s) = start_time s"
  "reading_interval (pulse_callback t s) = reading_interval s"
  "last_reading (pulse_callback t s) = last_reading s"
  by (simp_all add: pulse_callback_def Let_def)

lemma get_reading_stale:
  "t - start_time s < reading_interval s \<Longrightarrow> get_reading t s = (last_reading s, s)"
  by (simp add: get_reading_def Let_def)

lemma get_reading_returns_last:
  "fst (get_reading t s) = last_reading (snd (get_reading t s))"
  by (simp add: get_reading_def Let_def)

lemma sensor_inv_get_reading: "sensor_inv s \<Longrightarrow> sensor_inv (snd (get_reading t s))"
  by (auto simp: sensor_inv_def get_reading_def Let_def)

lemma sensor_inv_step: "sensor_inv s \<Longrightarrow> sensor_inv (sensor_step s e)"
proof (cases e)
  case (Pulse t)
  assume "sensor_inv s"
  then show ?thesis using Pulse by (simp add: sensor_inv_def pulse_callback_fields)
next
  case (Read t)
  assume "sensor_inv s"
  then show ?thesis using Read by (simp add: sensor_inv_get_reading)
next
  case ClearBuffer
  assume "sensor_inv s"
  then show ?thesis using ClearBuffer by (simp add: sensor_inv_def)
qed

lemma sensor_inv_run: "sensor_inv s \<Longrightarrow> sensor_inv (sensor_run evs s)"
  unfolding sensor_run_def
  by (induction evs arbitrary: s) (simp_all add: sensor_inv_step)

lemma sensor_inv_init: "sensor_inv (RadiationSensor_init t0)"
  by (simp add: sensor_inv_def RadiationSensor_init_def)

lemma get_reading_nonneg: "sensor_inv s \<Longrightarrow> 0 \<le> fst (get_reading t s)"
  using sensor_inv_get_reading [of s t]
  by (simp add: get_reading_returns_last sensor_inv_def)

lemma convert_nonneg: "0 \<le> convert_to_microsieverts cpm"
  by (simp add: convert_to_microsieverts_def Let_def)

text \<open>
  C7. \<open>convert_to_microsieverts\<close> returns 0 for \<open>cpm \<le> 0\<close> and
  \<open>((cpm / 60) / 65) * 0.036 * 3600\<close> otherwise; so the dose rate is never negative, and
  after every history of sensor events the CPM returned by \<open>get_reading\<close>, and its dose
  rate, are never negative.
\<close>

theorem dose_rate_conversion:
  "convert_to_microsieverts cpm
     = (if cpm \<le> 0 then 0 else ((cpm / 60) / 65) * (36 / 1000) * 3600)
   \<and> 0 \<le> convert_to_microsieverts cpm
   \<and> 0 \<le> fst (get_reading now (sensor_run evs (RadiationSensor_init t0)))
   \<and> 0 \<le> convert_to_microsieverts
            (fst (get_reading now (sensor_run evs (RadiationSensor_init t0))))"
proof -
  have "convert_to_microsieverts cpm
     = (if cpm \<le> 0 then 0 else ((cpm / 60) / 65) * (36 / 1000) * 3600)"
    by (simp add: convert_to_microsieverts_def Let_def)
  moreover have "0 \<le> fst (get_reading now (sensor_run evs (RadiationSensor_init t0)))"
    by (rule get_reading_nonneg) (rule sensor_inv_run, rule sensor_inv_init)
  ultimately show ?thesis
    using convert_nonneg by blast
qed

text \<open>
  65 CPM is 2.16 micro-Sv/h; two pulses in the first six seconds read as 11 CPM.
\<close>

theorem dose_rate_conversion_witness:
  "convert_to_microsieverts 65 = 54 / 25
   \<and> fst (get_reading 6 (sensor_run [Pulse 1, Pulse 2] (RadiationSensor_init 0))) = 11
   \<and> convert_to_microsieverts (- 3) = 0"
  using dose_rate_conversion [of 65 6 "[Pulse 1, Pulse 2]" 0]
    dose_rate_conversion [of "- 3" 6 "[Pulse 1, Pulse 2]" 0]
  by (simp add: sensor_run_def RadiationSensor_init_def pulse_callback_def get_reading_def Let_def)

text \<open>
  C5. Two calls of \<open>get_reading\<close> at clock times \<open>t1\<close> and \<open>t2\<close>, both less than
  \<open>reading_interval\<close> after the interval's start, with no pulse in between, return the
  same value: the stored estimate \<open>last_reading\<close>, the sensor being left as it was.
\<close>

theorem get_reading_idempotent:
  assumes "t1 - start_time s < reading_interval s"
    and "t2 - start_time s < reading_interval s"
  shows "fst (get_reading t2 (snd (get_reading t1 s))) = fst (get_reading t1 s)
       \<and> fst (get_reading t1 s) = last_reading s
       \<and> snd (get_reading t1 s) = s"
  using assms by (simp add: get_reading_stale)

text \<open>
  After one pulse and a recomputation at time 6 (estimate 5.5), the calls at times 7 and
  8 both return 5.5.
\<close>

theorem get_reading_idempotent_witness:
  "fst (get_reading 8 (snd (get_reading 7
      (snd (get_reading 6 (pulse_callback 1 (RadiationSensor_init 0)))))))
    = fst (get_reading 7 (snd (get_reading 6 (pulse_callback 1 (RadiationSensor_init 0)))))
   \<and> fst (get_reading 7 (snd (get_reading 6 (pulse_callback 1 (RadiationSensor_init 0)))))
    = 11 / 2"
  using get_reading_idempotent
    [of 7 "snd (get_reading 6 (pulse_callback 1 (RadiationSensor_init 0)))" 8]
  by (simp add: RadiationSensor_init_def pulse_callback_def get_reading_def Let_def)

lemma first_interval_inv:
  "reads_before (start_time s + reading_interval s) evs \<Longrightarrow>
     start_time (sensor_run evs s) = start_time s
   \<and> reading_interval (sensor_run evs s) = reading_interval s
   \<and> last_reading (sensor_run evs s) = last_reading s"
  unfolding sensor_run_def
proof (induction evs arbitrary: s)
  case Nil
  then show ?case by simp
next
  case (Cons e evs)
  show ?case
  proof (cases e)
    case (Pulse t)
    with Cons.prems have "reads_before (start_time (pulse_callback t s)
        + reading_interval (pulse_callback t s)) evs"
      by (simp add: pulse_callback_fields)
    from Cons.IH [OF this] Pulse show ?thesis
      by (simp add: pulse_callback_fields)
  next
    case (Read t)
    with Cons.prems have lt: "t - start_time s < reading_interval s"
      and rest: "reads_before (start_time s + reading_interval s) evs"
      by auto
    from Cons.IH [OF rest] Read lt show ?thesis
      by (simp add: get_reading_stale)
  next
    case ClearBuffer
    with Cons.prems have "reads_before (start_time (s\<lparr>pulse_buffer := []\<rparr>)
        + reading_interval (s\<lparr>pulse_buffer := []\<rparr>)) evs"
      by simp
    from Cons.IH [OF this] ClearBuffer show ?thesis
      by simp
  qed
qed

text \<open>
  C10. Before the first reading interval (5 s) has elapsed since construction at \<open>t0\<close>,
  \<open>get_reading\<close> returns 0 after every history of pulses, buffer resets and earlier
  (equally early) readings.
\<close>

theorem first_interval_reads_zero:
  assumes "reads_before (t0 + 5) evs" and "now - t0 < 5"
  shows "fst (get_reading now (sensor_run evs (RadiationSensor_init t0))) = 0"
proof -
  have i: "start_time (RadiationSensor_init t0) = t0"
    "reading_interval (RadiationSensor_init t0) = 5"
    "last_reading (RadiationSensor_init t0) = 0"
    by (simp_all add: RadiationSensor_init_def)
  from assms(1) have "reads_before (start_time (RadiationSensor_init t0)
      + reading_interval (RadiationSensor_init t0)) evs"
    by (simp add: i)
  from first_interval_inv [OF this] assms(2) show ?thesis
    by (simp add: i get_reading_stale)
qed

text \<open>
  Three pulses in the first 4.5 seconds: the reading is still 0.
\<close>

theorem first_interval_reads_zero_witness:
  "reads_before (0 + 5) [Pulse 1, Pulse 2, Read 3, Pulse 4]
   \<and> (9 / 2 :: real) - 0 < 5
   \<and> pulse_count (sensor_run [Pulse 1, Pulse 2, Read 3, Pulse 4] (RadiationSensor_init 0)) = 3
   \<and> fst (get_reading (9 / 2)
        (sensor_run [Pulse 1, Pulse 2, Read 3, Pulse 4] (RadiationSensor_init 0))) = 0"
proof -
  have h1: "reads_before (0 + 5) [Pulse 1, Pulse 2, Read 3, Pulse 4]" by simp
  have h2: "(9 / 2 :: real) - 0 < 5" by simp
  have c: "pulse_count (sensor_run [Pulse 1, Pulse 2, Read 3, Pulse 4] (RadiationSensor_init 0)) = 3"
    by (simp add: sensor_run_def RadiationSensor_init_def pulse_callback_def get_reading_def Let_def)
  show ?thesis using h1 h2 c first_interval_reads_zero [OF h1 h2] by simp
qed



subsection \<open>Samples and the maximum record\<close>

lemma collect_fields:
  "fst (collect_radiation_sample polls rb) = mean (map fst polls)"
  "tracker (snd (collect_radiation_sample polls rb)) = tracker rb"
  "is_exploring (snd (collect_radiation_sample polls rb)) = is_exploring rb"
  "radiation_data (snd (collect_radiation_sample polls rb)) = radiation_data rb @
     [\<lparr>position = (pos_x (tracker rb), pos_y (tracker rb)), dp_heading = heading (tracker rb),
       radiation_cpm = mean (map fst polls), radiation_microsieverts = mean (map snd polls),
       readings = map fst polls, microsievert_readings = map snd polls\<rparr>]"
  "max_radiation (snd (collect_radiation_sample polls rb)) =
     (if mean (map fst polls) > max_radiation rb then mean (map fst polls) else max_radiation rb)"
  "max_radiation_pos (snd (collect_radiation_sample polls rb)) =
     (if mean (map fst polls) > max_radiation rb then (pos_x (tracker rb), pos_y (tracker rb))
      else max_radiation_pos rb)"
  by (simp_all add: collect_radiation_sample_def get_position_def Let_def)

lemma move_fields:
  "tracker (move_and_track a n rb) = update_position a n (tracker rb)"
  "is_exploring (move_and_track a n rb) = is_exploring rb"
  "radiation_data (move_and_track a n rb) = radiation_data rb"
  "max_radiation (move_and_track a n rb) = max_radiation rb"
  "max_radiation_pos (move_and_track a n rb) = max_radiation_pos rb"
  by (simp_all add: move_and_track_def)

text \<open>
  C8. The maximum record is the strict running maximum: a sample replaces
  \<^verbatim>\<open>max_radiation\<close> and \<^verbatim>\<open>max_radiation_pos\<close> by its own CPM and position when its CPM
  strictly exceeds the stored value, and leaves both unchanged otherwise. Starting from
  a fresh robot, samples with CPM 10, 5, 30, 8 taken at arbitrary tracker states
  \<open>t1 \<dots> t4\<close> leave \<^verbatim>\<open>max_radiation = 30\<close> at the position of the third sample.
\<close>

theorem max_record_strict_running_maximum:
  "(mean (map fst polls) > max_radiation rb \<longrightarrow>
      max_radiation (snd (collect_radiation_sample polls rb)) = mean (map fst polls)
    \<and> max_radiation_pos (snd (collect_radiation_sample polls rb))
        = (pos_x (tracker rb), pos_y (tracker rb)))
   \<and> (\<not> mean (map fst polls) > max_radiation rb \<longrightarrow>
      max_radiation (snd (collect_radiation_sample polls rb)) = max_radiation rb
    \<and> max_radiation_pos (snd (collect_radiation_sample polls rb)) = max_radiation_pos rb)
   \<and> (mean (map fst p1) = 10 \<and> mean (map fst p2) = 5 \<and> mean (map fst p3) = 30
        \<and> mean (map fst p4) = 8 \<longrightarrow>
      max_radiation (snd (collect_radiation_sample p4
        ((snd (collect_radiation_sample p3
          ((snd (collect_radiation_sample p2
            ((snd (collect_radiation_sample p1
              (RadiationBot_init\<lparr>tracker := t1\<rparr>)))\<lparr>tracker := t2\<rparr>)))\<lparr>tracker := t3\<rparr>)))
                \<lparr>tracker := t4\<rparr>))) = 30
    \<and> max_radiation_pos (snd (collect_radiation_sample p4
        ((snd (collect_radiation_sample p3
          ((snd (collect_radiation_sample p2
            ((snd (collect_radiation_sample p1
              (RadiationBot_init\<lparr>tracker := t1\<rparr>)))\<lparr>tracker := t2\<rparr>)))\<lparr>tracker := t3\<rparr>)))
                \<lparr>tracker := t4\<rparr>))) = (pos_x t3, pos_y t3))"
  by (simp add: collect_fields RadiationBot_init_def)

text \<open>
  The sequence 10, 5 (mean of 4 and 6), 30, 8 at the positions (1, 2), (3, 4), (5, 6),
  (7, 8); a first sample of 10 CPM is recorded, a first sample of 0 CPM is not.
\<close>

theorem max_record_strict_running_maximum_witness:
  "max_radiation (snd (collect_radiation_sample [(8, 2 / 25)]
        ((snd (collect_radiation_sample [(30, 3 / 10)]
          ((snd (collect_radiation_sample [(4, 1 / 25), (6, 3 / 50)]
            ((snd (collect_radiation_sample [(10, 1 / 10)]
              (RadiationBot_init\<lparr>tracker := PositionTracker_init\<lparr>pos_x := 1, pos_y := 2\<rparr>\<rparr>)))
                \<lparr>tracker := PositionTracker_init\<lparr>pos_x := 3, pos_y := 4\<rparr>\<rparr>)))
                  \<lparr>tracker := PositionTracker_init\<lparr>pos_x := 5, pos_y := 6\<rparr>\<rparr>)))
                    \<lparr>tracker := PositionTracker_init\<lparr>pos_x := 7, pos_y := 8\<rparr>\<rparr>))) = 30
   \<and> max_radiation_pos (snd (collect_radiation_sample [(8, 2 / 25)]
        ((snd (collect_radiation_sample [(30, 3 / 10)]
          ((snd (collect_radiation_sample [(4, 1 / 25), (6, 3 / 50)]
            ((snd (collect_radiation_sample [(10, 1 / 10)]
              (RadiationBot_init\<lparr>tracker := PositionTracker_init\<lparr>pos_x := 1, pos_y := 2\<rparr>\<rparr>)))
                \<lparr>tracker := PositionTracker_init\<lparr>pos_x := 3, pos_y := 4\<rparr>\<rparr>)))
                  \<lparr>tracker := PositionTracker_init\<lparr>pos_x := 5, pos_y := 6\<rparr>\<rparr>)))
                    \<lparr>tracker := PositionTracker_init\<lparr>pos_x := 7, pos_y := 8\<rparr>\<rparr>))) = (5, 6)
   \<and> max_radiation (snd (collect_radiation_sample [(10, 1 / 10)] RadiationBot_init)) = 10
   \<and> max_radiation (snd (collect_radiation_sample [(0, 0)] RadiationBot_init)) = 0"
proof -
  have m: "mean (map fst [(10 :: real, 1 / 10 :: real)]) = 10
      \<and> mean (map fst [(4 :: real, 1 / 25 :: real), (6, 3 / 50)]) = 5
      \<and> mean (map fst [(30 :: real, 3 / 10 :: real)]) = 30
      \<and> mean (map fst [(8 :: real, 2 / 25 :: real)]) = 8"
    by (simp add: mean_def)
  have gt: "mean (map fst [(10 :: real, 1 / 10 :: real)]) > max_radiation RadiationBot_init"
    by (simp add: mean_def RadiationBot_init_def)
  have le: "\<not> mean (map fst [(0 :: real, 0 :: real)]) > max_radiation RadiationBot_init"
    by (simp add: mean_def RadiationBot_init_def)
  have z: "max_radiation RadiationBot_init = 0"
    by (simp add: RadiationBot_init_def)
  from m gt le z
    max_record_strict_running_maximum
      [where polls = "[(10, 1 / 10)]" and rb = RadiationBot_init
          and ?p1.0 = "[(10, 1 / 10)]" and ?p2.0 = "[(4, 1 / 25), (6, 3 / 50)]"
          and ?p3.0 = "[(30, 3 / 10)]" and ?p4.0 = "[(8, 2 / 25)]"
          and ?t1.0 = "PositionTracker_init\<lparr>pos_x := 1, pos_y := 2\<rparr>"
          and ?t2.0 = "PositionTracker_init\<lparr>pos_x := 3, pos_y := 4\<rparr>"
          and ?t3.0 = "PositionTracker_init\<lparr>pos_x := 5, pos_y := 6\<rparr>"
          and ?t4.0 = "PositionTracker_init\<lparr>pos_x := 7, pos_y := 8\<rparr>"]
    max_record_strict_running_maximum
      [where polls = "[(0, 0)]" and rb = RadiationBot_init
          and ?p1.0 = "[(10, 1 / 10)]" and ?p2.0 = "[(4, 1 / 25), (6, 3 / 50)]"
          and ?p3.0 = "[(30, 3 / 10)]" and ?p4.0 = "[(8, 2 / 25)]"
          and ?t1.0 = "PositionTracker_init\<lparr>pos_x := 1, pos_y := 2\<rparr>"
          and ?t2.0 = "PositionTracker_init\<lparr>pos_x := 3, pos_y := 4\<rparr>"
          and ?t3.0 = "PositionTracker_init\<lparr>pos_x := 5, pos_y := 6\<rparr>"
          and ?t4.0 = "PositionTracker_init\<lparr>pos_x := 7, pos_y := 8\<rparr>"]
  show ?thesis
    by (simp add: PositionTracker_init_def)
qed

subsection \<open>The probing phase of the source search\<close>

lemma sample_now_fields:
  "fst (sample_now env rb) = mean (map fst (env (length (radiation_data rb))))"
  "tracker (snd (sample_now env rb)) = tracker rb"
  "is_exploring (snd (sample_now env rb)) = is_exploring rb"
  "map position (radiation_data (snd (sample_now env rb)))
     = map position (radiation_data rb) @ [(pos_x (tracker rb), pos_y (tracker rb))]"
  "map dp_heading (radiation_data (snd (sample_now env rb)))
     = map dp_heading (radiation_data rb) @ [heading (tracker rb)]"
  "length (radiation_data (snd (sample_now env rb))) = Suc (length (radiation_data rb))"
  by (simp_all add: sample_now_def collect_fields)

lemma str_in_turn [simp]: "str_in ''turn'' ''turn right''" "\<not> str_in ''turn'' ''forward''"
  by simp_all

text \<open>One pass of the probing loop over the four list entries.\<close>

lemma probe_directions_unfold:
  "probe_directions env directions (bd, br, rb) =
     (case sample_now env (move_and_track ''forward'' 1 rb) of (test_radiation, b2) \<Rightarrow>
        (if test_radiation > br then Some ''forward'' else bd,
         if test_radiation > br then test_radiation else br,
         move_and_track ''turn right'' 1 (move_and_track ''turn right'' 1
           (move_and_track ''turn right'' 1 (move_and_track ''turn right'' 1
             (move_and_track ''backward'' 1 b2))))))"
  by (simp add: directions_def Let_def split: prod.splits)

lemma probe_phase_general:
  "length (radiation_data (snd (snd (probe_directions env directions (bd, br, rb)))))
     = Suc (length (radiation_data rb))
   \<and> heading (tracker (snd (snd (probe_directions env directions (bd, br, rb)))))
     = (heading (tracker rb) - 180) mod 360
   \<and> pos_x (tracker (snd (snd (probe_directions env directions (bd, br, rb)))))
     = pos_x (tracker rb)
   \<and> pos_y (tracker (snd (snd (probe_directions env directions (bd, br, rb)))))
     = pos_y (tracker rb)"
proof -
  obtain tr b2 where s: "sample_now env (move_and_track ''forward'' 1 rb) = (tr, b2)"
    by (cases "sample_now env (move_and_track ''forward'' 1 rb)")
  have t2: "tracker b2 = update_position ''forward'' 1 (tracker rb)"
    and l2: "length (radiation_data b2) = Suc (length (radiation_data rb))"
    using sample_now_fields(2,6) [of env "move_and_track ''forward'' 1 rb"] s
    by (simp_all add: move_fields)
  have h: "heading (update_position ''backward'' 1 (tracker b2)) = heading (tracker rb) mod 360"
    and px: "pos_x (update_position ''backward'' 1 (tracker b2)) = pos_x (tracker rb)"
    and py: "pos_y (update_position ''backward'' 1 (tracker b2)) = pos_y (tracker rb)"
    by (simp_all add: t2 backward_forward_pos)
  have turn4: "heading (update_position ''turn right'' 1 (update_position ''turn right'' 1
        (update_position ''turn right'' 1 (update_position ''turn right'' 1 u))))
      = (heading u - 180) mod 360"
    "pos_x (update_position ''turn right'' 1 (update_position ''turn right'' 1
        (update_position ''turn right'' 1 (update_position ''turn right'' 1 u)))) = pos_x u"
    "pos_y (update_position ''turn right'' 1 (update_position ''turn right'' 1
        (update_position ''turn right'' 1 (update_position ''turn right'' 1 u)))) = pos_y u"
    for u
    by (simp_all add: update_turn_right mod_diff_left_eq)
  have m: "(heading (tracker rb) mod 360 - 180) mod 360 = (heading (tracker rb) - 180) mod 360"
    by (simp add: mod_diff_left_eq)
  show ?thesis
    by (simp add: probe_directions_unfold s move_fields turn4 h px py l2 m)
qed

lemma sample_now_const:
  "fst (sample_now (\<lambda>k. [(c, m)]) rb) = c"
  by (simp add: sample_now_fields mean_def)

lemma init_fields:
  "tracker RadiationBot_init = PositionTracker_init"
  "radiation_data RadiationBot_init = []"
  "max_radiation RadiationBot_init = 0"
  "max_radiation_pos RadiationBot_init = (0, 0)"
  by (simp_all add: RadiationBot_init_def)

text \<open>
  C1, on the code. \<open>find_radiation_source\<close> with \<^verbatim>\<open>max_steps = 1\<close> on a fresh robot, every
  sample averaging 20 CPM: the baseline sample at (0, 0) is followed by a single probe
  sample, at (10, 0) with heading 0. The three \<^verbatim>\<open>'turn right'\<close> entries of the direction
  list only rotate, so no further heading is probed, and the tracker ends the probing
  phase at (0, 0) with heading 180, not with the heading 0 it started from. By
  \<open>probe_phase_general\<close> this is so from every state: one probe sample, position restored,
  heading turned by 180.
\<close>

theorem source_search_probes_one_direction:
  "map position (radiation_data (snd
      (find_radiation_source (\<lambda>k. [(20, 1 / 5)]) 1 RadiationBot_init))) = [(0, 0), (10, 0)]
   \<and> map dp_heading (radiation_data (snd
      (find_radiation_source (\<lambda>k. [(20, 1 / 5)]) 1 RadiationBot_init))) = [0, 0]
   \<and> get_position (tracker (snd
      (find_radiation_source (\<lambda>k. [(20, 1 / 5)]) 1 RadiationBot_init))) = (0, 0, 180)"
proof -
  define env :: environment where "env = (\<lambda>k. [(20, 1 / 5)])"
  define b0 where "b0 = snd (sample_now env RadiationBot_init)"
  define b2 where "b2 = snd (sample_now env (move_and_track ''forward'' 1 b0))"
  define b3 where "b3 = move_and_track ''backward'' 1 b2"
  define b4 where "b4 = move_and_track ''turn right'' 1 (move_and_track ''turn right'' 1
           (move_and_track ''turn right'' 1 (move_and_track ''turn right'' 1 b3)))"
  have r0: "sample_now env RadiationBot_init = (20, b0)"
    unfolding b0_def env_def by (simp add: prod_eq_iff sample_now_const)
  have r2: "sample_now env (move_and_track ''forward'' 1 b0) = (20, b2)"
    unfolding b2_def env_def by (simp add: prod_eq_iff sample_now_const)
  have p: "probe_directions env directions (None, 20, b0) = (None, 20, b4)"
    by (simp add: probe_directions_unfold r2 b4_def b3_def)
  have "seek_loop env 1 0 20 b0 = (20, b4)"
    by (subst seek_loop.simps) (simp add: p)
  then have res: "find_radiation_source env 1 RadiationBot_init = (20, b4)"
    by (simp add: find_radiation_source_def r0)
  have t0: "tracker b0 = PositionTracker_init"
    and d0: "map position (radiation_data b0) = [(0, 0)]"
    and h0: "map dp_heading (radiation_data b0) = [0]"
    unfolding b0_def
    by (simp_all add: sample_now_fields init_fields PositionTracker_init_def)
  have t1: "tracker (move_and_track ''forward'' 1 b0)
      = \<lparr>pos_x = 10, pos_y = 0, heading = 0, step_size = 10\<rparr>"
    by (simp add: move_fields t0 update_forward PositionTracker_init_def)
  have t2: "tracker b2 = \<lparr>pos_x = 10, pos_y = 0, heading = 0, step_size = 10\<rparr>"
    and d2: "map position (radiation_data b2) = [(0, 0), (10, 0)]"
    and h2: "map dp_heading (radiation_data b2) = [0, 0]"
    unfolding b2_def
    by (simp_all add: sample_now_fields t1) (simp_all add: move_fields d0 h0)
  have t3: "tracker b3 = \<lparr>pos_x = 0, pos_y = 0, heading = 0, step_size = 10\<rparr>"
    unfolding b3_def by (simp add: move_fields t2 update_backward)
  have t4: "tracker b4 = \<lparr>pos_x = 0, pos_y = 0, heading = 180, step_size = 10\<rparr>"
    unfolding b4_def by (simp add: move_fields t3 update_turn_right)
  have d4: "radiation_data b4 = radiation_data b2"
    unfolding b4_def b3_def by (simp add: move_fields)
  show ?thesis
    unfolding env_def [symmetric] res
    by (simp add: d4 d2 h2 t4 get_position_def)
qed

subsection \<open>The grid scan\<close>

lemma py_range_3: "py_range 3 = [0, 1, 2]"
  by (simp add: py_range_def upto.simps)

lemma explore_cell_fields:
  "tracker (explore_cell env n D row col rb) =
     (if col < n - 1 then update_position ''forward'' D (tracker rb)
      else if row < n - 1 then
        (if row mod 2 = 0 then
           update_position ''turn right'' 1
             (update_position ''forward'' D (update_position ''turn right'' 1 (tracker rb)))
         else
           update_position ''turn left'' 1
             (update_position ''forward'' D (update_position ''turn left'' 1 (tracker rb))))
      else tracker rb)"
  "is_exploring (explore_cell env n D row col rb) = is_exploring rb"
  "map position (radiation_data (explore_cell env n D row col rb))
     = map position (radiation_data rb) @ [(pos_x (tracker rb), pos_y (tracker rb))]"
  "map dp_heading (radiation_data (explore_cell env n D row col rb))
     = map dp_heading (radiation_data rb) @ [heading (tracker rb)]"
proof -
  obtain r b1 where s: "sample_now env rb = (r, b1)"
    by (cases "sample_now env rb")
  have f: "tracker b1 = tracker rb" "is_exploring b1 = is_exploring rb"
    "map position (radiation_data b1)
       = map position (radiation_data rb) @ [(pos_x (tracker rb), pos_y (tracker rb))]"
    "map dp_heading (radiation_data b1) = map dp_heading (radiation_data rb) @ [heading (tracker rb)]"
    using sample_now_fields(2-5) [of env rb] s by simp_all
  show "tracker (explore_cell env n D row col rb) =
     (if col < n - 1 then update_position ''forward'' D (tracker rb)
      else if row < n - 1 then
        (if row mod 2 = 0 then
           update_position ''turn right'' 1
             (update_position ''forward'' D (update_position ''turn right'' 1 (tracker rb)))
         else
           update_position ''turn left'' 1
             (update_position ''forward'' D (update_position ''turn left'' 1 (tracker rb))))
      else tracker rb)"
    by (simp add: explore_cell_def s move_fields f)
  show "is_exploring (explore_cell env n D row col rb) = is_exploring rb"
    by (simp add: explore_cell_def s move_fields f)
  show "map position (radiation_data (explore_cell env n D row col rb))
     = map position (radiation_data rb) @ [(pos_x (tracker rb), pos_y (tracker rb))]"
    by (simp add: explore_cell_def s move_fields f)
  show "map dp_heading (radiation_data (explore_cell env n D row col rb))
     = map dp_heading (radiation_data rb) @ [heading (tracker rb)]"
    by (simp add: explore_cell_def s move_fields f)
qed

lemma explore_cols_3:
  "is_exploring rb \<Longrightarrow>
   explore_cols env 3 D r (py_range 3) rb =
     explore_cell env 3 D r 2 (explore_cell env 3 D r 1 (explore_cell env 3 D r 0 rb))"
  by (simp add: py_range_3 explore_cell_fields(2))

lemma scan_3x3:
  fixes D :: int and env :: environment
  defines "d \<equiv> real_of_int D * 10"
  defines "s \<equiv> real_of_int D * 10 * (sqrt 2 / 2)"
  shows "map position (fst (explore_grid env 3 D RadiationBot_init)) =
           [(0, 0), (d, 0), (2 * d, 0),
            (2 * d + s, - s), (2 * d + s, - s - d), (2 * d + s, - s - 2 * d),
            (2 * d + 2 * s, - 2 * s - 2 * d), (3 * d + 2 * s, - 2 * s - 2 * d),
            (4 * d + 2 * s, - 2 * s - 2 * d)]"
    and "map dp_heading (fst (explore_grid env 3 D RadiationBot_init)) =
           [0, 0, 0, 270, 270, 270, 0, 0, 0]"
proof -
  define s0 where "s0 = RadiationBot_init\<lparr>is_exploring := True\<rparr>"
  define c00 where "c00 = explore_cell env 3 D 0 0 s0"
  define c01 where "c01 = explore_cell env 3 D 0 1 c00"
  define c02 where "c02 = explore_cell env 3 D 0 2 c01"
  define c10 where "c10 = explore_cell env 3 D 1 0 c02"
  define c11 where "c11 = explore_cell env 3 D 1 1 c10"
  define c12 where "c12 = explore_cell env 3 D 1 2 c11"
  define c20 where "c20 = explore_cell env 3 D 2 0 c12"
  define c21 where "c21 = explore_cell env 3 D 2 1 c20"
  define c22 where "c22 = explore_cell env 3 D 2 2 c21"
  note defs = c00_def c01_def c02_def c10_def c11_def c12_def c20_def c21_def c22_def
  have e0: "is_exploring s0" by (simp add: s0_def)
  have e1: "is_exploring c02" by (simp add: defs explore_cell_fields(2) e0)
  have e2: "is_exploring c12" by (simp add: defs explore_cell_fields(2) e0)
  have rows: "explore_rows env 3 D (py_range 3) s0 = c22"
  proof -
    have r0: "explore_cols env 3 D 0 (py_range 3) s0 = c02"
      by (simp add: explore_cols_3 e0 defs)
    have r1: "explore_cols env 3 D 1 (py_range 3) c02 = c12"
      by (simp add: explore_cols_3 e1) (simp add: defs)
    have r2: "explore_cols env 3 D 2 (py_range 3) c12 = c22"
      by (simp add: explore_cols_3 e2) (simp add: defs)
    have "explore_rows env 3 D (py_range 3) s0 =
        explore_cols env 3 D 2 (py_range 3)
          (explore_cols env 3 D 1 (py_range 3) (explore_cols env 3 D 0 (py_range 3) s0))"
      by (simp add: py_range_3)
    then show ?thesis
      by (simp only: r0 r1 r2)
  qed
  have res: "fst (explore_grid env 3 D RadiationBot_init) = radiation_data c22"
    by (simp add: explore_grid_def Let_def rows [unfolded s0_def])
  have t0: "tracker s0 = \<lparr>pos_x = 0, pos_y = 0, heading = 0, step_size = 10\<rparr>"
    and d0: "map position (radiation_data s0) = []"
    and h0: "map dp_heading (radiation_data s0) = []"
    by (simp_all add: s0_def init_fields PositionTracker_init_def)
  have t00: "tracker c00 = \<lparr>pos_x = d, pos_y = 0, heading = 0, step_size = 10\<rparr>"
    by (simp add: c00_def explore_cell_fields(1) t0 update_forward d_def)
  have t01: "tracker c01 = \<lparr>pos_x = 2 * d, pos_y = 0, heading = 0, step_size = 10\<rparr>"
    by (simp add: c01_def explore_cell_fields(1) t00 update_forward d_def)
  have t02: "tracker c02 = \<lparr>pos_x = 2 * d + s, pos_y = - s, heading = 270, step_size = 10\<rparr>"
    by (simp add: c02_def explore_cell_fields(1) t01 update_forward update_turn_right d_def s_def)
  have t10: "tracker c10 = \<lparr>pos_x = 2 * d + s, pos_y = - s - d, heading = 270, step_size = 10\<rparr>"
    by (simp add: c10_def explore_cell_fields(1) t02 update_forward d_def)
  have t11: "tracker c11 = \<lparr>pos_x = 2 * d + s, pos_y = - s - 2 * d, heading = 270, step_size = 10\<rparr>"
    by (simp add: c11_def explore_cell_fields(1) t10 update_forward d_def)
  have t12: "tracker c12 = \<lparr>pos_x = 2 * d + 2 * s, pos_y = - 2 * s - 2 * d, heading = 0, step_size = 10\<rparr>"
    by (simp add: c12_def explore_cell_fields(1) t11 update_forward update_turn_left d_def s_def)
  have t20: "tracker c20 = \<lparr>pos_x = 3 * d + 2 * s, pos_y = - 2 * s - 2 * d, heading = 0, step_size = 10\<rparr>"
    by (simp add: c20_def explore_cell_fields(1) t12 update_forward d_def)
  have t21: "tracker c21 = \<lparr>pos_x = 4 * d + 2 * s, pos_y = - 2 * s - 2 * d, heading = 0, step_size = 10\<rparr>"
    by (simp add: c21_def explore_cell_fields(1) t20 update_forward d_def)
  have p00: "map position (radiation_data c00) = [(0, 0)]"
    by (simp add: c00_def explore_cell_fields(3) d0 t0)
  have p01: "map position (radiation_data c01) = [(0, 0), (d, 0)]"
    by (simp add: c01_def explore_cell_fields(3) p00 t00)
  have p02: "map position (radiation_data c02) = [(0, 0), (d, 0), (2 * d, 0)]"
    by (simp add: c02_def explore_cell_fields(3) p01 t01)
  have p10: "map position (radiation_data c10) = [(0, 0), (d, 0), (2 * d, 0), (2 * d + s, - s)]"
    by (simp add: c10_def explore_cell_fields(3) p02 t02)
  have p11: "map position (radiation_data c11) =
      [(0, 0), (d, 0), (2 * d, 0), (2 * d + s, - s), (2 * d + s, - s - d)]"
    by (simp add: c11_def explore_cell_fields(3) p10 t10)
  have p12: "map position (radiation_data c12) =
      [(0, 0), (d, 0), (2 * d, 0), (2 * d + s, - s), (2 * d + s, - s - d),
       (2 * d + s, - s - 2 * d)]"
    by (simp add: c12_def explore_cell_fields(3) p11 t11)
  have p20: "map position (radiation_data c20) =
      [(0, 0), (d, 0), (2 * d, 0), (2 * d + s, - s), (2 * d + s, - s - d),
       (2 * d + s, - s - 2 * d), (2 * d + 2 * s, - 2 * s - 2 * d)]"
    by (simp add: c20_def explore_cell_fields(3) p12 t12)
  have p21: "map position (radiation_data c21) =
      [(0, 0), (d, 0), (2 * d, 0), (2 * d + s, - s), (2 * d + s, - s - d),
       (2 * d + s, - s - 2 * d), (2 * d + 2 * s, - 2 * s - 2 * d),
       (3 * d + 2 * s, - 2 * s - 2 * d)]"
    by (simp add: c21_def explore_cell_fields(3) p20 t20)
  have p22: "map position (radiation_data c22) =
      [(0, 0), (d, 0), (2 * d, 0), (2 * d + s, - s), (2 * d + s, - s - d),
       (2 * d + s, - s - 2 * d), (2 * d + 2 * s, - 2 * s - 2 * d),
       (3 * d + 2 * s, - 2 * s - 2 * d), (4 * d + 2 * s, - 2 * s - 2 * d)]"
    by (simp add: c22_def explore_cell_fields(3) p21 t21)
  have g: "map dp_heading (radiation_data c22) =
      [heading (tracker s0), heading (tracker c00), heading (tracker c01),
       heading (tracker c02), heading (tracker c10), heading (tracker c11),
       heading (tracker c12), heading (tracker c20), heading (tracker c21)]"
    by (simp add: defs explore_cell_fields(4) h0)
  show "map position (fst (explore_grid env 3 D RadiationBot_init)) =
           [(0, 0), (d, 0), (2 * d, 0),
            (2 * d + s, - s), (2 * d + s, - s - d), (2 * d + s, - s - 2 * d),
            (2 * d + 2 * s, - 2 * s - 2 * d), (3 * d + 2 * s, - 2 * s - 2 * d),
            (4 * d + 2 * s, - 2 * s - 2 * d)]"
    by (simp only: res p22)
  show "map dp_heading (fst (explore_grid env 3 D RadiationBot_init)) =
           [0, 0, 0, 270, 270, 270, 0, 0, 0]"
    by (simp add: res g t0 t00 t01 t02 t10 t11 t12 t20 t21)
qed

text \<open>
  C2, on the code. \<open>explore_grid\<close> with \<^verbatim>\<open>grid_size = 3\<close> and \<^verbatim>\<open>step_distance = 2\<close> on a
  fresh robot stores 9 samples, but not on the cells of a 3 by 3 grid. The first turn of
  the row-end manoeuvre is 45 degrees in the tracker (heading 315), the advance is 2
  steps along that diagonal and the second turn goes the same way, so the manoeuvre
  after row 0 ends at \<open>(10 * sqrt 2, - 10 * sqrt 2)\<close> with heading 270. The second row is
  sampled at heading 270 from \<open>(40 + 10 * sqrt 2, - 10 * sqrt 2)\<close> downwards and the third
  at heading 0 from \<open>(40 + 20 * sqrt 2, - 40 - 20 * sqrt 2)\<close>: a staircase, not the
  serpentine over nine grid points that the scan sets out to walk.
\<close>

theorem explore_grid_3x3_misses_grid:
  "get_position (tracker RadiationBot_init) = (0, 0, 0)
   \<and> heading (update_position ''turn right'' 1 (tracker RadiationBot_init)) = 315
   \<and> get_position (tracker (explore_cell (\<lambda>k. [(20, 1 / 5)]) 3 2 0 2 RadiationBot_init))
       = (10 * sqrt 2, - (10 * sqrt 2), 270)
   \<and> map dp_heading (fst (explore_grid (\<lambda>k. [(20, 1 / 5)]) 3 2 RadiationBot_init))
       = [0, 0, 0, 270, 270, 270, 0, 0, 0]
   \<and> map position (fst (explore_grid (\<lambda>k. [(20, 1 / 5)]) 3 2 RadiationBot_init))
       = [(0, 0), (20, 0), (40, 0),
          (40 + 10 * sqrt 2, - (10 * sqrt 2)),
          (40 + 10 * sqrt 2, - (10 * sqrt 2) - 20),
          (40 + 10 * sqrt 2, - (10 * sqrt 2) - 40),
          (40 + 20 * sqrt 2, - (20 * sqrt 2) - 40),
          (60 + 20 * sqrt 2, - (20 * sqrt 2) - 40),
          (80 + 20 * sqrt 2, - (20 * sqrt 2) - 40)]"
proof -
  have a: "get_position (tracker RadiationBot_init) = (0, 0, 0)"
    by (simp add: get_position_def init_fields PositionTracker_init_def)
  have b: "heading (update_position ''turn right'' 1 (tracker RadiationBot_init)) = 315"
    by (simp add: update_turn_right init_fields PositionTracker_init_def)
  have t1: "update_position ''turn right'' 1 (tracker RadiationBot_init)
      = \<lparr>pos_x = 0, pos_y = 0, heading = 315, step_size = 10\<rparr>"
    by (simp add: update_turn_right init_fields PositionTracker_init_def)
  have t2: "update_position ''forward'' 2 \<lparr>pos_x = 0, pos_y = 0, heading = 315, step_size = 10\<rparr>
      = \<lparr>pos_x = 10 * sqrt 2, pos_y = - (10 * sqrt 2), heading = 315, step_size = 10\<rparr>"
    by (simp add: update_forward)
  have c: "get_position (tracker (explore_cell (\<lambda>k. [(20, 1 / 5)]) 3 2 0 2 RadiationBot_init))
       = (10 * sqrt 2, - (10 * sqrt 2), 270)"
    by (simp add: explore_cell_fields(1) t1 t2) (simp add: update_turn_right get_position_def)
  have e: "map position (fst (explore_grid (\<lambda>k. [(20, 1 / 5)]) 3 2 RadiationBot_init))
       = [(0, 0), (20, 0), (40, 0),
          (40 + 10 * sqrt 2, - (10 * sqrt 2)),
          (40 + 10 * sqrt 2, - (10 * sqrt 2) - 20),
          (40 + 10 * sqrt 2, - (10 * sqrt 2) - 40),
          (40 + 20 * sqrt 2, - (20 * sqrt 2) - 40),
          (60 + 20 * sqrt 2, - (20 * sqrt 2) - 40),
          (80 + 20 * sqrt 2, - (20 * sqrt 2) - 40)]"
    by (simp only: scan_3x3(1)) simp
  from a b c e scan_3x3(2) [of "\<lambda>k. [(20, 1 / 5)]" 2] show ?thesis
    by blast
qed

end
